theory Spec2Isabelle
  imports Complex_Main
begin

section \<open>Numbers\<close>

text \<open>
  The service computes on Python floats and on PostgreSQL \<open>DOUBLE PRECISION\<close> columns.
  Both are idealised here as real numbers: every arithmetic operation is exact, and
  \<open>round(x, ndigits)\<close> rounds the exact value to the nearest multiple of
  \<open>10 ^ - ndigits\<close>, a tie going to the even neighbour as Python does.
\<close>

definition round_half_even :: "real \<Rightarrow> int" where
  "round_half_even x =
     (let f = \<lfloor>x\<rfloor>; d = x - of_int f
      in if d < 1 / 2 then f else if 1 / 2 < d then f + 1 else if even f then f else f + 1)"

definition py_round :: "real \<Rightarrow> nat \<Rightarrow> real" where
  "py_round x ndigits = of_int (round_half_even (x * 10 ^ ndigits)) / 10 ^ ndigits"

definition dict_get :: "('k \<rightharpoonup> 'v) \<Rightarrow> 'k \<Rightarrow> 'v \<Rightarrow> 'v" where
  "dict_get m k dflt = (case m k of None \<Rightarrow> dflt | Some v \<Rightarrow> v)"

section \<open>Pricing (app/services/pricing.py)\<close>

definition BASE_FARE :: "string \<rightharpoonup> real" where
  "BASE_FARE = map_of [(''standard'', 30), (''premium'', 60), (''xl'', 80)]"

definition RATE_PER_KM :: "string \<rightharpoonup> real" where
  "RATE_PER_KM = map_of [(''standard'', 12), (''premium'', 20), (''xl'', 18)]"

definition RATE_PER_MIN :: "string \<rightharpoonup> real" where
  "RATE_PER_MIN = map_of [(''standard'', 1.5), (''premium'', 2.5), (''xl'', 2.0)]"

definition calculate_fare :: "string \<Rightarrow> real \<Rightarrow> real \<Rightarrow> real \<Rightarrow> real" where
  "calculate_fare tier distance_km duration_minutes surge =
     (let fare = dict_get BASE_FARE tier 30
                 + dict_get RATE_PER_KM tier 12 * distance_km
                 + dict_get RATE_PER_MIN tier 1.5 * duration_minutes
      in py_round (fare * surge) 2)"

text \<open>\<open>math.radians\<close> and \<open>math.atan2\<close>, the latter with the quadrant rules of the C library.\<close>

definition radians :: "real \<Rightarrow> real" where
  "radians x = x * pi / 180"

definition atan2 :: "real \<Rightarrow> real \<Rightarrow> real" where
  "atan2 y x =
     (if 0 < x then arctan (y / x)
      else if x < 0 \<and> 0 \<le> y then arctan (y / x) + pi
      else if x < 0 \<and> y < 0 then arctan (y / x) - pi
      else if 0 < y then pi / 2
      else if y < 0 then - (pi / 2)
      else 0)"

definition haversine_km :: "real \<Rightarrow> real \<Rightarrow> real \<Rightarrow> real \<Rightarrow> real" where
  "haversine_km lat1 lng1 lat2 lng2 =
     (let R = 6371;
          phi1 = radians lat1; phi2 = radians lat2;
          dphi = radians (lat2 - lat1);
          dlambda = radians (lng2 - lng1);
          a = (sin (dphi / 2))\<^sup>2 + cos phi1 * cos phi2 * (sin (dlambda / 2))\<^sup>2
      in R * 2 * atan2 (sqrt a) (sqrt (1 - a)))"

definition estimate_fare :: "string \<Rightarrow> real \<Rightarrow> real \<Rightarrow> real \<Rightarrow> real \<Rightarrow> real \<Rightarrow> real" where
  "estimate_fare tier pickup_lat pickup_lng dest_lat dest_lng surge =
     (let dist = haversine_km pickup_lat pickup_lng dest_lat dest_lng;
          duration = (dist / 30) * 60
      in calculate_fare tier dist duration surge)"

text \<open>The fare table as the specification words it, the fall-back to standard written out.\<close>

definition spec_base :: "string \<Rightarrow> real" where
  "spec_base tier = (if tier = ''premium'' then 60 else if tier = ''xl'' then 80 else 30)"

definition spec_per_km :: "string \<Rightarrow> real" where
  "spec_per_km tier = (if tier = ''premium'' then 20 else if tier = ''xl'' then 18 else 12)"

definition spec_per_min :: "string \<Rightarrow> real" where
  "spec_per_min tier = (if tier = ''premium'' then 2.5 else if tier = ''xl'' then 2.0 else 1.5)"

section \<open>Persistent and cached state (app/core/database.py)\<close>

text \<open>
  The five tables are lists of rows in insertion order. Identifiers (UUIDs in the schema)
  are natural numbers and timestamps are seconds; the \<open>CHECK\<close> constraints on the status
  columns make them enumerations.
\<close>

datatype driver_state = Offline | Available | On_trip

datatype ride_state =
  Requested | Searching | Matched | Accepted | In_progress | Paused | Completed | Cancelled

datatype payment_state = Pending | Processing | Success | Failed

fun ride_state_str :: "ride_state \<Rightarrow> string" where
  "ride_state_str Requested = ''requested''"
| "ride_state_str Searching = ''searching''"
| "ride_state_str Matched = ''matched''"
| "ride_state_str Accepted = ''accepted''"
| "ride_state_str In_progress = ''in_progress''"
| "ride_state_str Paused = ''paused''"
| "ride_state_str Completed = ''completed''"
| "ride_state_str Cancelled = ''cancelled''"

record driver =
  driver_id :: nat
  driver_name :: string
  driver_phone :: string
  driver_tier :: string
  driver_status :: driver_state
  latitude :: "real option"
  longitude :: "real option"
  last_location_update :: "nat option"
  driver_created_at :: nat

record rider =
  rider_id :: nat
  rider_name :: string
  rider_phone :: string
  rider_email :: "string option"
  rider_created_at :: nat

record ride =
  ride_id :: nat
  ride_rider_id :: nat
  ride_driver_id :: "nat option"
  pickup_lat :: real
  pickup_lng :: real
  dest_lat :: real
  dest_lng :: real
  pickup_address :: "string option"
  dest_address :: "string option"
  ride_tier :: string
  payment_method :: string
  ride_status :: ride_state
  surge_multiplier :: real
  estimated_fare :: "real option"
  final_fare :: "real option"
  ride_idempotency_key :: "string option"
  ride_created_at :: nat
  ride_updated_at :: nat

record trip =
  trip_id :: nat
  trip_ride_id :: nat
  started_at :: "nat option"
  paused_at :: "nat option"
  ended_at :: "nat option"
  trip_distance_km :: real
  trip_duration_minutes :: real
  trip_fare :: "real option"
  trip_created_at :: nat

record payment =
  payment_id :: nat
  payment_ride_id :: nat
  payment_rider_id :: nat
  amount :: real
  pay_method :: string
  payment_status :: payment_state
  psp_ref :: "string option"
  payment_idempotency_key :: "string option"
  payment_created_at :: nat

text \<open>
  Redis: one store per key prefix (\<open>demand:\<close>, \<open>idem:ride:\<close>, \<open>idem:pay:\<close>, \<open>ride:\<close>,
  \<open>driver:loc:\<close>). An entry carries its value and the time at which it expires, if any.
\<close>

type_synonym ('k, 'v) redis_store = "'k \<rightharpoonup> ('v \<times> nat option)"

definition redis_get :: "('k, 'v) redis_store \<Rightarrow> nat \<Rightarrow> 'k \<Rightarrow> 'v option" where
  "redis_get store now k =
     (case store k of
        None \<Rightarrow> None
      | Some (v, None) \<Rightarrow> Some v
      | Some (v, Some t) \<Rightarrow> if now < t then Some v else None)"

definition redis_setex :: "('k, 'v) redis_store \<Rightarrow> nat \<Rightarrow> 'k \<Rightarrow> nat \<Rightarrow> 'v \<Rightarrow> ('k, 'v) redis_store" where
  "redis_setex store now k seconds v = store(k \<mapsto> (v, Some (now + seconds)))"

definition redis_delete :: "('k, 'v) redis_store \<Rightarrow> 'k \<Rightarrow> ('k, 'v) redis_store" where
  "redis_delete store k = store(k := None)"

definition redis_incr :: "('k, int) redis_store \<Rightarrow> nat \<Rightarrow> 'k \<Rightarrow> ('k, int) redis_store \<times> int" where
  "redis_incr store now k =
     (case store k of
        None \<Rightarrow> (store(k \<mapsto> (1, None)), 1)
      | Some (n, None) \<Rightarrow> (store(k \<mapsto> (n + 1, None)), n + 1)
      | Some (n, Some t) \<Rightarrow>
          if now < t then (store(k \<mapsto> (n + 1, Some t)), n + 1)
          else (store(k \<mapsto> (1, None)), 1))"

definition redis_expire :: "('k, 'v) redis_store \<Rightarrow> nat \<Rightarrow> 'k \<Rightarrow> nat \<Rightarrow> ('k, 'v) redis_store" where
  "redis_expire store now k seconds =
     (case redis_get store now k of
        None \<Rightarrow> store
      | Some v \<Rightarrow> store(k \<mapsto> (v, Some (now + seconds))))"

record world =
  drivers :: "driver list"
  riders :: "rider list"
  rides :: "ride list"
  trips :: "trip list"
  payments :: "payment list"
  demand :: "(real \<times> real, int) redis_store"
  idem_ride :: "(string, ride) redis_store"
  idem_pay :: "(string, payment) redis_store"
  ride_cache :: "(nat, ride) redis_store"
  driver_loc :: "(nat, real \<times> real) redis_store"
  clock :: nat

text \<open>
  What a handler can end with besides its response: the \<open>HTTPException\<close>s it raises itself
  (status code and detail), the plain \<open>Exception\<close> of the assignment, and the errors the
  runtime raises underneath it.
\<close>

datatype error =
  HTTPException nat string
| Exception string
| ValidationError
| TypeError
| DataError
| UniqueViolationError
| ForeignKeyViolationError

text \<open>\<open>SELECT ... WHERE\<close> on one row, \<open>UPDATE ... WHERE\<close>, and the default of an id column.\<close>

definition fetchrow :: "('a \<Rightarrow> bool) \<Rightarrow> 'a list \<Rightarrow> 'a option" where
  "fetchrow P rows = find P rows"

definition update_where :: "('a \<Rightarrow> bool) \<Rightarrow> ('a \<Rightarrow> 'a) \<Rightarrow> 'a list \<Rightarrow> 'a list" where
  "update_where P f rows = map (\<lambda>r. if P r then f r else r) rows"

definition gen_id :: "nat list \<Rightarrow> nat" where
  "gen_id ids = Suc (foldr max ids 0)"

text \<open>Python truthiness of an optional string and of an optional number.\<close>

definition truthy_key :: "string option \<Rightarrow> string option" where
  "truthy_key k = (case k of None \<Rightarrow> None | Some s \<Rightarrow> if s = [] then None else Some s)"

definition py_or :: "real option \<Rightarrow> real \<Rightarrow> real" where
  "py_or x y = (case x of None \<Rightarrow> y | Some v \<Rightarrow> if v = 0 then y else v)"

section \<open>Surge pricing (app/services/pricing.py)\<close>

definition get_surge_multiplier :: "real \<Rightarrow> real \<Rightarrow> world \<Rightarrow> world \<times> real" where
  "get_surge_multiplier pickup_lat' pickup_lng' w =
     (let cell = (py_round pickup_lat' 2, py_round pickup_lng' 2);
          (store1, count) = redis_incr (demand w) (clock w) cell;
          store2 = redis_expire store1 (clock w) cell 300
      in (w\<lparr>demand := store2\<rparr>,
          if count < 5 then 1.0
          else if count < 10 then 1.2
          else if count < 20 then 1.5
          else if count < 40 then 1.8
          else 2.0))"


section \<open>Matching (app/services/matching.py)\<close>

text \<open>
  The distance expression of the SQL query, on the pickup point \<open>($1, $2)\<close> and a driver's
  \<open>latitude\<close> and \<open>longitude\<close>; it is \<open>NULL\<close> when the driver has no position.
\<close>

definition sql_distance_km :: "real \<Rightarrow> real \<Rightarrow> real \<Rightarrow> real \<Rightarrow> real" where
  "sql_distance_km p1 p2 lat lng =
     6371 * arccos (cos (radians p1) * cos (radians lat) * cos (radians lng - radians p2)
                    + sin (radians p1) * sin (radians lat))"

definition driver_distance :: "real \<Rightarrow> real \<Rightarrow> driver \<Rightarrow> real option" where
  "driver_distance p1 p2 d =
     (case latitude d of
        None \<Rightarrow> None
      | Some lat \<Rightarrow>
          (case longitude d of
             None \<Rightarrow> None
           | Some lng \<Rightarrow> Some (sql_distance_km p1 p2 lat lng)))"

text \<open>
  The query: the rows that pass the \<open>WHERE\<close> clause, each with its \<open>distance_km\<close>, ordered
  by it, the first one returned. Among drivers at equal distance the earliest row is taken.
\<close>

definition nearest_query :: "driver list \<Rightarrow> real \<Rightarrow> real \<Rightarrow> string \<Rightarrow> real \<Rightarrow> (real \<times> driver) option" where
  "nearest_query ds p1 p2 p3 p4 =
     (let rows = List.map_filter
            (\<lambda>d. if driver_status d = Available \<and> driver_tier d = p3
                  then (case driver_distance p1 p2 d of
                          None \<Rightarrow> None
                        | Some km \<Rightarrow> if km < p4 then Some (km, d) else None)
                  else None) ds
      in if rows = [] then None else Some (arg_min_list fst rows))"

text \<open>
  The search doubles the radius while it is below 20. The matcher reads the drivers table
  as one snapshot; not returning is the value \<open>None\<close>.
\<close>

partial_function (option) find_nearest_driver ::
  "driver list \<Rightarrow> real \<Rightarrow> real \<Rightarrow> string \<Rightarrow> real \<Rightarrow> (real \<times> driver) option option" where
  "find_nearest_driver ds pickup_lat' pickup_lng' tier radius_km =
     (case nearest_query ds pickup_lat' pickup_lng' tier radius_km of
        Some row \<Rightarrow> Some (Some row)
      | None \<Rightarrow>
          if radius_km < 20
          then find_nearest_driver ds pickup_lat' pickup_lng' tier (radius_km * 2)
          else Some None)"

text \<open>
  The assignment is one transaction on the locked driver row: when it raises, nothing is
  written.
\<close>

definition assign_driver_to_ride :: "nat \<Rightarrow> nat \<Rightarrow> world \<Rightarrow> world \<times> (error + unit)" where
  "assign_driver_to_ride rid did w =
     (case fetchrow (\<lambda>d. driver_id d = did) (drivers w) of
        None \<Rightarrow> (w, Inl (Exception ''Driver no longer available''))
      | Some driver \<Rightarrow>
          if driver_status driver \<noteq> Available
          then (w, Inl (Exception ''Driver no longer available''))
          else
            (w\<lparr>drivers := update_where (\<lambda>d. driver_id d = did)
                            (\<lambda>d. d\<lparr>driver_status := On_trip\<rparr>) (drivers w),
               rides := update_where (\<lambda>r. ride_id r = rid)
                          (\<lambda>r. r\<lparr>ride_driver_id := Some did, ride_status := Matched,
                                 ride_updated_at := clock w\<rparr>) (rides w),
               driver_loc := redis_delete (driver_loc w) did,
               ride_cache := redis_delete (ride_cache w) rid\<rparr>,
             Inr ()))"

section \<open>Rides (app/routers/rides.py)\<close>

definition set_ride_status :: "nat \<Rightarrow> ride_state \<Rightarrow> world \<Rightarrow> world" where
  "set_ride_status rid st w =
     w\<lparr>rides := update_where (\<lambda>r. ride_id r = rid)
                   (\<lambda>r. r\<lparr>ride_status := st, ride_updated_at := clock w\<rparr>) (rides w)\<rparr>"

definition invalidate_ride :: "nat \<Rightarrow> world \<Rightarrow> world" where
  "invalidate_ride rid w = w\<lparr>ride_cache := redis_delete (ride_cache w) rid\<rparr>"

text \<open>
  The background task. It is suspended between finding a driver and assigning it, during
  its \<open>sleep\<close>, and again between the second search and the second assignment; \<open>env k\<close> is
  what the other handlers commit during the \<open>k\<close>-th of these suspensions. An exception that
  leaves the task is the \<open>Inl\<close> result.
\<close>

definition search_and_match ::
  "(nat \<Rightarrow> world \<Rightarrow> world) \<Rightarrow> nat \<Rightarrow> real \<Rightarrow> real \<Rightarrow> string \<Rightarrow> world
     \<Rightarrow> (world \<times> (error + unit)) option" where
  "search_and_match env rid pickup_lat' pickup_lng' tier w0 =
     (let w1 = set_ride_status rid Searching w0 in
      case find_nearest_driver (drivers w1) pickup_lat' pickup_lng' tier 5 of
        None \<Rightarrow> None
      | Some None \<Rightarrow> Some (invalidate_ride rid (set_ride_status rid Cancelled w1), Inr ())
      | Some (Some (km, driver)) \<Rightarrow>
          (case assign_driver_to_ride rid (driver_id driver) (env 0 w1) of
             (w2, Inr u) \<Rightarrow> Some (invalidate_ride rid w2, Inr ())
           | (w2, Inl e) \<Rightarrow>
               (let w3 = env 1 w2 in
                case find_nearest_driver (drivers w3) pickup_lat' pickup_lng' tier 5 of
                  None \<Rightarrow> None
                | Some None \<Rightarrow> Some (invalidate_ride rid w3, Inr ())
                | Some (Some (km2, driver2)) \<Rightarrow>
                    (case assign_driver_to_ride rid (driver_id driver2) (env 2 w3) of
                       (w4, Inr u) \<Rightarrow> Some (invalidate_ride rid w4, Inr ())
                     | (w4, Inl e2) \<Rightarrow> Some (w4, Inl e2)))))"

text \<open>
  The body of a create-ride request. The validators of the schema (coordinate ranges, the
  three tiers, the three payment methods) run before the handler and are not repeated.
\<close>

record RideCreate =
  req_rider_id :: nat
  req_pickup_lat :: real
  req_pickup_lng :: real
  req_dest_lat :: real
  req_dest_lng :: real
  req_pickup_address :: "string option"
  req_dest_address :: "string option"
  req_tier :: string
  req_payment_method :: string
  req_idempotency_key :: "string option"

text \<open>
  \<open>INSERT INTO rides ... ON CONFLICT (idempotency_key) DO UPDATE SET idempotency_key =
  EXCLUDED.idempotency_key RETURNING *\<close>: a row that already carries the token is returned
  as it is; otherwise the new row is appended, provided its rider exists.
\<close>

definition insert_ride :: "RideCreate \<Rightarrow> real \<Rightarrow> real \<Rightarrow> world \<Rightarrow> error + world \<times> ride" where
  "insert_ride payload surge est_fare w =
     (case (case req_idempotency_key payload of
              None \<Rightarrow> None
            | Some k \<Rightarrow> fetchrow (\<lambda>r. ride_idempotency_key r = Some k) (rides w)) of
        Some existing \<Rightarrow> Inr (w, existing)
      | None \<Rightarrow>
          if fetchrow (\<lambda>r. rider_id r = req_rider_id payload) (riders w) = None
          then Inl ForeignKeyViolationError
          else
            (let row = \<lparr>ride_id = gen_id (map ride_id (rides w)),
                        ride_rider_id = req_rider_id payload,
                        ride_driver_id = None,
                        pickup_lat = req_pickup_lat payload,
                        pickup_lng = req_pickup_lng payload,
                        dest_lat = req_dest_lat payload,
                        dest_lng = req_dest_lng payload,
                        pickup_address = req_pickup_address payload,
                        dest_address = req_dest_address payload,
                        ride_tier = req_tier payload,
                        payment_method = req_payment_method payload,
                        ride_status = Requested,
                        surge_multiplier = surge,
                        estimated_fare = Some est_fare,
                        final_fare = None,
                        ride_idempotency_key = req_idempotency_key payload,
                        ride_created_at = clock w,
                        ride_updated_at = clock w\<rparr>
             in Inr (w\<lparr>rides := rides w @ [row]\<rparr>, row)))"

text \<open>
  The response is the ride row together with the background task the handler schedules
  (the arguments of \<open>search_and_match\<close>), if any.
\<close>

definition create_ride ::
  "RideCreate \<Rightarrow> world \<Rightarrow> world \<times> (error + ride \<times> (nat \<times> real \<times> real \<times> string) option)" where
  "create_ride payload w =
     (case (case truthy_key (req_idempotency_key payload) of
              None \<Rightarrow> None
            | Some k \<Rightarrow> redis_get (idem_ride w) (clock w) k) of
        Some cached \<Rightarrow> (w, Inr (cached, None))
      | None \<Rightarrow>
          (let (w1, surge) = get_surge_multiplier (req_pickup_lat payload) (req_pickup_lng payload) w;
               est_fare = estimate_fare (req_tier payload) (req_pickup_lat payload)
                            (req_pickup_lng payload) (req_dest_lat payload) (req_dest_lng payload)
                            surge
           in case insert_ride payload surge est_fare w1 of
                Inl e \<Rightarrow> (w1, Inl e)
              | Inr (w2, result) \<Rightarrow>
                  (let w3 = (case truthy_key (req_idempotency_key payload) of
                               None \<Rightarrow> w2
                             | Some k \<Rightarrow>
                                 w2\<lparr>idem_ride := redis_setex (idem_ride w2) (clock w2) k 86400
                                                     result\<rparr>)
                   in (w3, Inr (result, Some (ride_id result, req_pickup_lat payload,
                                              req_pickup_lng payload, req_tier payload))))))"

section \<open>Drivers (app/routers/drivers.py)\<close>

text \<open>The apostrophe that the detail strings put around a state name.\<close>

definition apostrophe :: string where
  "apostrophe = [CHR 0x27]"


text \<open>The request body is a free dictionary; \<open>status\<close> is what \<open>body.get("status")\<close> yields.\<close>

definition update_driver_status :: "nat \<Rightarrow> string option \<Rightarrow> world \<Rightarrow> world \<times> (error + nat \<times> string)" where
  "update_driver_status did status w =
     (if status \<noteq> Some ''available'' \<and> status \<noteq> Some ''offline''
      then (w, Inl (HTTPException 400
              (''Status must be '' @ apostrophe @ ''available'' @ apostrophe @ '' or ''
                 @ apostrophe @ ''offline'' @ apostrophe)))
      else
        (let st = (if status = Some ''available'' then Available else Offline) in
         case fetchrow (\<lambda>d. driver_id d = did) (drivers w) of
           None \<Rightarrow> (w, Inl (HTTPException 404 ''Driver not found''))
         | Some row \<Rightarrow>
             (w\<lparr>drivers := update_where (\<lambda>d. driver_id d = did)
                             (\<lambda>d. d\<lparr>driver_status := st\<rparr>) (drivers w)\<rparr>,
              Inr (did, if st = Available then ''available'' else ''offline''))))"

section \<open>Trips (app/routers/trips.py)\<close>

definition start_trip :: "nat \<Rightarrow> world \<Rightarrow> world \<times> (error + string \<times> nat)" where
  "start_trip tid w =
     (case fetchrow (\<lambda>t. trip_id t = tid) (trips w) of
        None \<Rightarrow> (w, Inl (HTTPException 404 ''Trip not found''))
      | Some trip \<Rightarrow>
          (case fetchrow (\<lambda>r. ride_id r = trip_ride_id trip) (rides w) of
             None \<Rightarrow> (w, Inl TypeError)
           | Some ride \<Rightarrow>
               if ride_status ride \<noteq> Accepted
               then (w, Inl (HTTPException 409
                       (''Cannot start trip in ride state '' @ apostrophe
                          @ ride_state_str (ride_status ride) @ apostrophe)))
               else
                 (invalidate_ride (trip_ride_id trip)
                    (w\<lparr>trips := update_where (\<lambda>t. trip_id t = tid)
                                    (\<lambda>t. t\<lparr>started_at := Some (clock w)\<rparr>) (trips w),
                       rides := update_where (\<lambda>r. ride_id r = trip_ride_id trip)
                                  (\<lambda>r. r\<lparr>ride_status := In_progress, ride_updated_at := clock w\<rparr>)
                                  (rides w)\<rparr>),
                  Inr (''in_progress'', tid))))"

definition pause_trip :: "nat \<Rightarrow> world \<Rightarrow> world \<times> (error + string \<times> nat)" where
  "pause_trip tid w =
     (case fetchrow (\<lambda>t. trip_id t = tid) (trips w) of
        None \<Rightarrow> (w, Inl (HTTPException 404 ''Trip not found''))
      | Some trip \<Rightarrow>
          (invalidate_ride (trip_ride_id trip)
             (w\<lparr>trips := update_where (\<lambda>t. trip_id t = tid)
                             (\<lambda>t. t\<lparr>paused_at := Some (clock w)\<rparr>) (trips w),
                rides := update_where (\<lambda>r. ride_id r = trip_ride_id trip)
                           (\<lambda>r. r\<lparr>ride_status := Paused, ride_updated_at := clock w\<rparr>)
                           (rides w)\<rparr>),
           Inr (''paused'', tid)))"

text \<open>
  \<open>TripEndRequest\<close> admits only non-negative numbers. The driver is addressed by
  \<open>str(ride["driver_id"])\<close>, which is no identifier when the ride has none: the update then
  raises and the transaction writes nothing.
\<close>

definition end_trip ::
  "nat \<Rightarrow> real \<Rightarrow> real \<Rightarrow> world \<Rightarrow> world \<times> (error + string \<times> nat \<times> real \<times> real \<times> real)" where
  "end_trip tid distance_km duration_minutes w =
     (if distance_km < 0 \<or> duration_minutes < 0 then (w, Inl ValidationError)
      else
        case fetchrow (\<lambda>t. trip_id t = tid) (trips w) of
          None \<Rightarrow> (w, Inl (HTTPException 404 ''Trip not found''))
        | Some trip \<Rightarrow>
            (case fetchrow (\<lambda>r. ride_id r = trip_ride_id trip) (rides w) of
               None \<Rightarrow> (w, Inl TypeError)
             | Some ride \<Rightarrow>
                 if ride_status ride \<noteq> In_progress \<and> ride_status ride \<noteq> Paused
                 then (w, Inl (HTTPException 409
                         (''Cannot end trip in ride state '' @ apostrophe
                            @ ride_state_str (ride_status ride) @ apostrophe)))
                 else
                   (let fare = calculate_fare (ride_tier ride) distance_km duration_minutes
                                 (surge_multiplier ride)
                    in case ride_driver_id ride of
                         None \<Rightarrow> (w, Inl DataError)
                       | Some did \<Rightarrow>
                           (invalidate_ride (trip_ride_id trip)
                              (w\<lparr>trips := update_where (\<lambda>t. trip_id t = tid)
                                              (\<lambda>t. t\<lparr>ended_at := Some (clock w),
                                                     trip_distance_km := distance_km,
                                                     trip_duration_minutes := duration_minutes,
                                                     trip_fare := Some fare\<rparr>) (trips w),
                                 rides := update_where (\<lambda>r. ride_id r = trip_ride_id trip)
                                            (\<lambda>r. r\<lparr>ride_status := Completed,
                                                   final_fare := Some fare,
                                                   ride_updated_at := clock w\<rparr>) (rides w),
                                 drivers := update_where (\<lambda>d. driver_id d = did)
                                              (\<lambda>d. d\<lparr>driver_status := Available\<rparr>)
                                              (drivers w)\<rparr>),
                            Inr (''completed'', tid, fare, distance_km, duration_minutes)))))"

section \<open>Payments (app/routers/payments.py)\<close>

record PaymentCreate =
  pay_ride_id :: nat
  pay_idempotency_key :: "string option"

text \<open>
  The insert resolves a duplicate token to the row that carries it, as for rides. The
  response is the payment row and the settlement task the handler schedules (payment id,
  ride id, amount, method), if any; the settlement itself draws a random number and is not
  part of this development.
\<close>

definition insert_payment :: "nat \<Rightarrow> nat \<Rightarrow> real \<Rightarrow> string \<Rightarrow> string option \<Rightarrow> world \<Rightarrow> error + world \<times> payment" where
  "insert_payment rid rider amt meth key w =
     (case (case key of
              None \<Rightarrow> None
            | Some k \<Rightarrow> fetchrow (\<lambda>p. payment_idempotency_key p = Some k) (payments w)) of
        Some existing \<Rightarrow> Inr (w, existing)
      | None \<Rightarrow>
          if fetchrow (\<lambda>r. ride_id r = rid) (rides w) = None
             \<or> fetchrow (\<lambda>r. rider_id r = rider) (riders w) = None
          then Inl ForeignKeyViolationError
          else
            (let row = \<lparr>payment_id = gen_id (map payment_id (payments w)),
                        payment_ride_id = rid,
                        payment_rider_id = rider,
                        amount = amt,
                        pay_method = meth,
                        payment_status = Pending,
                        psp_ref = None,
                        payment_idempotency_key = key,
                        payment_created_at = clock w\<rparr>
             in Inr (w\<lparr>payments := payments w @ [row]\<rparr>, row)))"

definition create_payment ::
  "PaymentCreate \<Rightarrow> world
     \<Rightarrow> world \<times> (error + payment \<times> (nat \<times> nat \<times> real \<times> string) option)" where
  "create_payment payload w =
     (case (case truthy_key (pay_idempotency_key payload) of
              None \<Rightarrow> None
            | Some k \<Rightarrow> redis_get (idem_pay w) (clock w) k) of
        Some cached \<Rightarrow> (w, Inr (cached, None))
      | None \<Rightarrow>
          (case fetchrow (\<lambda>r. ride_id r = pay_ride_id payload) (rides w) of
             None \<Rightarrow> (w, Inl (HTTPException 404 ''Ride not found''))
           | Some ride \<Rightarrow>
               if ride_status ride \<noteq> Completed
               then (w, Inl (HTTPException 409 ''Ride must be completed before payment''))
               else
                 (let amt = py_or (final_fare ride) (py_or (estimated_fare ride) 0)
                  in case insert_payment (pay_ride_id payload) (ride_rider_id ride) amt
                            (payment_method ride) (pay_idempotency_key payload) w of
                       Inl e \<Rightarrow> (w, Inl e)
                     | Inr (w1, result) \<Rightarrow>
                         (let w2 = (case truthy_key (pay_idempotency_key payload) of
                                      None \<Rightarrow> w1
                                    | Some k \<Rightarrow>
                                        w1\<lparr>idem_pay := redis_setex (idem_pay w1) (clock w1) k
                                                           86400 result\<rparr>)
                          in (w2, Inr (result, Some (payment_id result, pay_ride_id payload, amt,
                                                     payment_method ride)))))))"

section \<open>A small world for the examples\<close>

definition demo_driver :: driver where
  "demo_driver =
     \<lparr>driver_id = 7, driver_name = ''Asha'', driver_phone = ''9000000001'',
      driver_tier = ''standard'', driver_status = On_trip,
      latitude = Some 0, longitude = Some 0,
      last_location_update = Some 990, driver_created_at = 10\<rparr>"

definition demo_rider :: rider where
  "demo_rider =
     \<lparr>rider_id = 3, rider_name = ''Ravi'', rider_phone = ''9000000002'',
      rider_email = None, rider_created_at = 20\<rparr>"

definition demo_ride :: ride where
  "demo_ride =
     \<lparr>ride_id = 5, ride_rider_id = 3, ride_driver_id = Some 7,
      pickup_lat = 0, pickup_lng = 0, dest_lat = 0, dest_lng = 0,
      pickup_address = None, dest_address = None,
      ride_tier = ''standard'', payment_method = ''card'',
      ride_status = In_progress, surge_multiplier = 1,
      estimated_fare = Some 30, final_fare = None,
      ride_idempotency_key = Some ''tok-1'',
      ride_created_at = 100, ride_updated_at = 200\<rparr>"

definition demo_trip :: trip where
  "demo_trip =
     \<lparr>trip_id = 9, trip_ride_id = 5, started_at = Some 200, paused_at = None,
      ended_at = None, trip_distance_km = 0, trip_duration_minutes = 0,
      trip_fare = None, trip_created_at = 150\<rparr>"

definition demo_world :: world where
  "demo_world =
     \<lparr>drivers = [demo_driver], riders = [demo_rider], rides = [demo_ride],
      trips = [demo_trip], payments = [],
      demand = Map.empty, idem_ride = Map.empty, idem_pay = Map.empty,
      ride_cache = Map.empty, driver_loc = Map.empty, clock = 1000\<rparr>"

text \<open>
  A race for the dispatch task: while the task is suspended, another handler takes every
  driver (suspensions 0 and 2) or every driver comes back (suspension 1).
\<close>

definition take_drivers :: "world \<Rightarrow> world" where
  "take_drivers w = w\<lparr>drivers := map (\<lambda>d. d\<lparr>driver_status := On_trip\<rparr>) (drivers w)\<rparr>"

definition free_drivers :: "world \<Rightarrow> world" where
  "free_drivers w = w\<lparr>drivers := map (\<lambda>d. d\<lparr>driver_status := Available\<rparr>) (drivers w)\<rparr>"

definition demo_race :: "nat \<Rightarrow> world \<Rightarrow> world" where
  "demo_race k = (if k = 1 then free_drivers else take_drivers)"

definition demo_requested_ride :: ride where
  "demo_requested_ride =
     demo_ride\<lparr>ride_status := Requested, ride_driver_id := None\<rparr>"

definition demo_requested_world :: world where
  "demo_requested_world =
     demo_world\<lparr>drivers := [demo_driver\<lparr>driver_status := Available\<rparr>],
                  rides := [demo_requested_ride], trips := []\<rparr>"

definition demo_completed_ride :: ride where
  "demo_completed_ride = demo_ride\<lparr>ride_status := Completed, final_fare := Some 112.5\<rparr>"

definition demo_completed_world :: world where
  "demo_completed_world =
     demo_world\<lparr>drivers := [demo_driver\<lparr>driver_status := Available\<rparr>],
                  rides := [demo_completed_ride]\<rparr>"

text \<open>A create-ride request of rider 3 under a given token, and the ride it creates.\<close>

definition demo_request :: "string option \<Rightarrow> RideCreate" where
  "demo_request key =
     \<lparr>req_rider_id = 3, req_pickup_lat = 0, req_pickup_lng = 0,
      req_dest_lat = 0, req_dest_lng = 0,
      req_pickup_address = None, req_dest_address = None,
      req_tier = ''standard'', req_payment_method = ''card'',
      req_idempotency_key = key\<rparr>"

definition demo_created_ride :: "string option \<Rightarrow> ride" where
  "demo_created_ride key =
     \<lparr>ride_id = 1, ride_rider_id = 3, ride_driver_id = None,
      pickup_lat = 0, pickup_lng = 0, dest_lat = 0, dest_lng = 0,
      pickup_address = None, dest_address = None,
      ride_tier = ''standard'', payment_method = ''card'',
      ride_status = Requested, surge_multiplier = 1,
      estimated_fare = Some 30, final_fare = None,
      ride_idempotency_key = key,
      ride_created_at = 1000, ride_updated_at = 1000\<rparr>"

definition demo_empty_world :: world where
  "demo_empty_world = demo_world\<lparr>drivers := [], rides := [], trips := []\<rparr>"

text \<open>
  A payment of ride 5 made under the token \<open>pay-1\<close>, and a world that holds it and the
  response stored for that token.
\<close>

definition demo_payment :: payment where
  "demo_payment =
     \<lparr>payment_id = 4, payment_ride_id = 5, payment_rider_id = 3, amount = 112.5,
      pay_method = ''card'', payment_status = Pending, psp_ref = None,
      payment_idempotency_key = Some ''pay-1'', payment_created_at = 900\<rparr>"

definition demo_paid_world :: world where
  "demo_paid_world =
     demo_completed_world
       \<lparr>payments := [demo_payment\<lparr>payment_status := Success, psp_ref := Some ''psp_0a1b2c3d4e5f''\<rparr>],
        idem_pay := [''pay-1'' \<mapsto> (demo_payment, Some 87300)]\<rparr>"

definition demo_free_ride :: ride where
  "demo_free_ride = demo_ride\<lparr>ride_status := Completed, final_fare := Some 0\<rparr>"

section \<open>Fare calculator: tables and rounding\<close>

lemma calculate_fare_formula:
  "calculate_fare tier d t s
     = py_round ((spec_base tier + spec_per_km tier * d + spec_per_min tier * t) * s) 2"
  by (simp add: calculate_fare_def dict_get_def BASE_FARE_def RATE_PER_KM_def RATE_PER_MIN_def
      spec_base_def spec_per_km_def spec_per_min_def)

lemma py_round_30: "py_round 30 2 = 30"
  by (simp add: py_round_def round_half_even_def Let_def)




section \<open>Great-circle distance: the query and the estimator\<close>








section \<open>Surge pricing: the counter and the multiplier\<close>


section \<open>Rows after an update\<close>

lemma fetchrow_update_where:
  assumes "\<And>r. P (f r) = P r"
  shows "fetchrow P (update_where P f rows) = map_option f (fetchrow P rows)"
  using assms by (induction rows) (simp_all add: fetchrow_def update_where_def)

section \<open>Ending a trip\<close>

text \<open>
  C1. For a trip whose ride is \<open>in_progress\<close> or \<open>paused\<close> and has an assigned driver,
  \<open>end_trip\<close> with non-negative distance and duration answers with the fare
  \<open>calculate_fare(ride.tier, distance, duration, ride.surge_multiplier)\<close>, stamps the trip's
  end time, distance, duration and fare, sets the ride's \<open>final_fare\<close> and status
  \<open>completed\<close>, and sets the assigned driver \<open>available\<close>; the surge multiplier is the one
  stored on the ride, whatever the demand counters hold now. For a trip whose ride is in
  any other state, \<open>end_trip\<close> fails with 409, the detail naming the ride's state, and the
  world is unchanged.
\<close>

theorem end_trip_spec:
  assumes "fetchrow (\<lambda>t. trip_id t = tid) (trips w) = Some trip"
    and "fetchrow (\<lambda>r. ride_id r = trip_ride_id trip) (rides w) = Some ride"
    and "0 \<le> km" and "0 \<le> mins"
  shows
    "(ride_status ride \<in> {In_progress, Paused} \<and> ride_driver_id ride = Some did \<longrightarrow>
       (let fare = calculate_fare (ride_tier ride) km mins (surge_multiplier ride);
            w' = fst (end_trip tid km mins w)
        in snd (end_trip tid km mins w) = Inr (''completed'', tid, fare, km, mins)
           \<and> fetchrow (\<lambda>t. trip_id t = tid) (trips w')
               = Some (trip\<lparr>ended_at := Some (clock w), trip_distance_km := km,
                             trip_duration_minutes := mins, trip_fare := Some fare\<rparr>)
           \<and> fetchrow (\<lambda>r. ride_id r = trip_ride_id trip) (rides w')
               = Some (ride\<lparr>ride_status := Completed, final_fare := Some fare,
                             ride_updated_at := clock w\<rparr>)
           \<and> fetchrow (\<lambda>d. driver_id d = did) (drivers w')
               = map_option (\<lambda>d. d\<lparr>driver_status := Available\<rparr>)
                   (fetchrow (\<lambda>d. driver_id d = did) (drivers w))
           \<and> snd (end_trip tid km mins (w\<lparr>demand := dm\<rparr>)) = snd (end_trip tid km mins w)))
     \<and> (ride_status ride \<notin> {In_progress, Paused} \<longrightarrow>
          end_trip tid km mins w
            = (w, Inl (HTTPException 409
                 (''Cannot end trip in ride state '' @ apostrophe
                    @ ride_state_str (ride_status ride) @ apostrophe))))"
proof -
  have go: "ride_status ride \<in> {In_progress, Paused} \<Longrightarrow> ride_driver_id ride = Some did \<Longrightarrow>
      end_trip tid km mins w
        = (invalidate_ride (trip_ride_id trip)
             (w\<lparr>trips := update_where (\<lambda>t. trip_id t = tid)
                            (\<lambda>t. t\<lparr>ended_at := Some (clock w), trip_distance_km := km,
                                   trip_duration_minutes := mins,
                                   trip_fare := Some (calculate_fare (ride_tier ride) km mins
                                                        (surge_multiplier ride))\<rparr>) (trips w),
                rides := update_where (\<lambda>r. ride_id r = trip_ride_id trip)
                           (\<lambda>r. r\<lparr>ride_status := Completed,
                                  final_fare := Some (calculate_fare (ride_tier ride) km mins
                                                        (surge_multiplier ride)),
                                  ride_updated_at := clock w\<rparr>) (rides w),
                drivers := update_where (\<lambda>d. driver_id d = did)
                             (\<lambda>d. d\<lparr>driver_status := Available\<rparr>) (drivers w)\<rparr>),
           Inr (''completed'', tid, calculate_fare (ride_tier ride) km mins (surge_multiplier ride),
                km, mins))"
    using assms by (auto simp: end_trip_def Let_def)
  have same: "ride_status ride \<in> {In_progress, Paused} \<Longrightarrow> ride_driver_id ride = Some did \<Longrightarrow>
      snd (end_trip tid km mins (w\<lparr>demand := dm\<rparr>)) = snd (end_trip tid km mins w)"
    using assms by (auto simp: end_trip_def Let_def)
  have stop: "ride_status ride \<notin> {In_progress, Paused} \<Longrightarrow>
      end_trip tid km mins w
        = (w, Inl (HTTPException 409
             (''Cannot end trip in ride state '' @ apostrophe
                @ ride_state_str (ride_status ride) @ apostrophe)))"
    using assms by (simp add: end_trip_def)
  show ?thesis
    using same stop
    by (auto simp: go Let_def invalidate_ride_def fetchrow_update_where assms)
qed

theorem end_trip_spec_witness:
  "fetchrow (\<lambda>t. trip_id t = 9) (trips demo_world) = Some demo_trip
   \<and> fetchrow (\<lambda>r. ride_id r = trip_ride_id demo_trip) (rides demo_world) = Some demo_ride
   \<and> ride_status demo_ride \<in> {In_progress, Paused} \<and> ride_driver_id demo_ride = Some 7
   \<and> snd (end_trip 9 5 15 demo_world) = Inr (''completed'', 9, 112.5, 5, 15)
   \<and> fetchrow (\<lambda>r. ride_id r = 5) (rides (fst (end_trip 9 5 15 demo_world)))
       = Some (demo_ride\<lparr>ride_status := Completed, final_fare := Some 112.5,
                         ride_updated_at := 1000\<rparr>)
   \<and> fetchrow (\<lambda>d. driver_id d = 7) (drivers (fst (end_trip 9 5 15 demo_world)))
       = Some (demo_driver\<lparr>driver_status := Available\<rparr>)
   \<and> ride_status (demo_ride\<lparr>ride_status := Completed\<rparr>) \<notin> {In_progress, Paused}
   \<and> end_trip 9 5 15 (demo_world\<lparr>rides := [demo_ride\<lparr>ride_status := Completed\<rparr>]\<rparr>)
       = (demo_world\<lparr>rides := [demo_ride\<lparr>ride_status := Completed\<rparr>]\<rparr>,
          Inl (HTTPException 409 (''Cannot end trip in ride state '' @ apostrophe
                 @ ''completed'' @ apostrophe)))"
proof -
  let ?done = "demo_ride\<lparr>ride_status := Completed\<rparr>"
  let ?w = "demo_world\<lparr>rides := [?done]\<rparr>"
  have t': "fetchrow (\<lambda>t. trip_id t = 9) (trips ?w) = Some demo_trip"
    by (simp add: fetchrow_def demo_world_def demo_trip_def)
  have r': "fetchrow (\<lambda>r. ride_id r = trip_ride_id demo_trip) (rides ?w) = Some ?done"
    by (simp add: fetchrow_def demo_trip_def demo_ride_def)
  have s': "ride_status ?done \<notin> {In_progress, Paused}" by simp
  have t: "fetchrow (\<lambda>t. trip_id t = 9) (trips demo_world) = Some demo_trip"
    by (simp add: fetchrow_def demo_world_def demo_trip_def)
  have r: "fetchrow (\<lambda>r. ride_id r = trip_ride_id demo_trip) (rides demo_world) = Some demo_ride"
    by (simp add: fetchrow_def demo_world_def demo_trip_def demo_ride_def)
  have d: "fetchrow (\<lambda>d. driver_id d = 7) (drivers demo_world) = Some demo_driver"
    by (simp add: fetchrow_def demo_world_def demo_driver_def)
  have s: "ride_status demo_ride \<in> {In_progress, Paused} \<and> ride_driver_id demo_ride = Some 7"
    by (simp add: demo_ride_def)
  have f: "calculate_fare (ride_tier demo_ride) 5 15 (surge_multiplier demo_ride) = 112.5"
    by (simp add: demo_ride_def calculate_fare_formula spec_base_def spec_per_km_def
        spec_per_min_def py_round_def round_half_even_def Let_def)
  have c: "clock demo_world = 1000" "trip_ride_id demo_trip = 5"
    by (simp_all add: demo_world_def demo_trip_def)
  have km: "(0::real) \<le> 5" and mins: "(0::real) \<le> 15" by simp_all
  note ended = end_trip_spec [OF t r km mins, of 7 Map.empty, THEN conjunct1, THEN mp, OF s]
  note refused = end_trip_spec [OF t' r' km mins, of 7 Map.empty, THEN conjunct2, THEN mp, OF s']
  show ?thesis
    using ended refused t r s by (simp add: Let_def f d c)
qed

section \<open>Accepting a ride\<close>

lemma fetchrow_None: "fetchrow P rows = None \<longleftrightarrow> (\<forall>r \<in> set rows. \<not> P r)"
  by (auto simp: fetchrow_def find_None_iff)


lemma le_foldr_max: "x \<in> set ids \<Longrightarrow> x \<le> foldr max ids (0::nat)"
  by (induction ids) auto

lemma gen_id_fresh: "gen_id ids \<notin> set ids"
proof
  assume "gen_id ids \<in> set ids"
  then have "gen_id ids \<le> foldr max ids 0" by (rule le_foldr_max)
  then show False by (simp add: gen_id_def)
qed



section \<open>Dispatch\<close>

lemma find_nearest_driver_default:
  "find_nearest_driver ds la lo tier 5
     = Some (case nearest_query ds la lo tier 5 of
               Some row \<Rightarrow> Some row
             | None \<Rightarrow>
                 (case nearest_query ds la lo tier 10 of
                    Some row \<Rightarrow> Some row
                  | None \<Rightarrow> nearest_query ds la lo tier 20))"
proof -
  have r20: "find_nearest_driver ds la lo tier 20 = Some (nearest_query ds la lo tier 20)"
    by (subst find_nearest_driver.simps) (simp split: option.splits)
  have r10: "find_nearest_driver ds la lo tier 10
      = Some (case nearest_query ds la lo tier 10 of
                Some row \<Rightarrow> Some row
              | None \<Rightarrow> nearest_query ds la lo tier 20)"
    by (subst find_nearest_driver.simps) (simp add: r20 split: option.splits)
  show ?thesis
    by (subst find_nearest_driver.simps) (simp add: r10 split: option.splits)
qed

lemma find_nearest_driver_total:
  "\<exists>found. find_nearest_driver ds la lo tier 5 = Some found"
  by (simp add: find_nearest_driver_default)

lemma search_and_match_returns:
  "\<exists>outcome. search_and_match env rid la lo tier w = Some outcome"
proof -
  define w1 where "w1 = set_ride_status rid Searching w"
  obtain found where f1: "find_nearest_driver (drivers w1) la lo tier 5 = Some found"
    using find_nearest_driver_total by blast
  show ?thesis
  proof (cases found)
    case None
    with f1 show ?thesis by (simp add: search_and_match_def w1_def)
  next
    case (Some row)
    obtain km driver where row: "row = (km, driver)" by (cases row)
    obtain w2 res where a1: "assign_driver_to_ride rid (driver_id driver) (env 0 w1) = (w2, res)"
      by (cases "assign_driver_to_ride rid (driver_id driver) (env 0 w1)")
    show ?thesis
    proof (cases res)
      case (Inr u)
      with f1 Some row a1 show ?thesis by (simp add: search_and_match_def w1_def)
    next
      case (Inl e)
      obtain found2 where f2: "find_nearest_driver (drivers (env 1 w2)) la lo tier 5 = Some found2"
        using find_nearest_driver_total by blast
      show ?thesis
      proof (cases found2)
        case None
        with f1 Some row a1 Inl f2 show ?thesis by (simp add: search_and_match_def w1_def)
      next
        case (Some row2)
        note s2 = this
        obtain km2 driver2 where row2: "row2 = (km2, driver2)" by (cases row2)
        obtain w4 res2 where
          a2: "assign_driver_to_ride rid (driver_id driver2) (env 2 (env 1 w2)) = (w4, res2)"
          by (cases "assign_driver_to_ride rid (driver_id driver2) (env 2 (env 1 w2))")
        from f1 \<open>found = Some row\<close> row a1 Inl f2 s2 row2 a2 show ?thesis
          by (cases res2) (simp_all add: search_and_match_def w1_def)
      qed
    qed
  qed
qed

lemma assign_driver_to_ride_refused:
  assumes "assign_driver_to_ride rid did w = (w', Inl e)"
  shows "w' = w \<and> e = Exception ''Driver no longer available''"
  using assms by (auto simp: assign_driver_to_ride_def split: option.splits if_splits)

lemma search_and_match_cancels:
  assumes "find_nearest_driver (drivers (set_ride_status rid Searching w)) la lo tier 5
             = Some None"
  shows "search_and_match env rid la lo tier w
     = Some (invalidate_ride rid
               (set_ride_status rid Cancelled (set_ride_status rid Searching w)), Inr ())"
  using assms by (simp add: search_and_match_def)

lemma search_and_match_second_refusal:
  assumes "find_nearest_driver (drivers (set_ride_status rid Searching w)) la lo tier 5
             = Some (Some (km, driver))"
    and "assign_driver_to_ride rid (driver_id driver) (env 0 (set_ride_status rid Searching w))
             = (w2, Inl e)"
    and "find_nearest_driver (drivers (env 1 w2)) la lo tier 5 = Some (Some (km2, driver2))"
    and "assign_driver_to_ride rid (driver_id driver2) (env 2 (env 1 w2)) = (w4, Inl e2)"
  shows "search_and_match env rid la lo tier w = Some (w4, Inl e2)"
  using assms by (simp add: search_and_match_def)

lemma sql_distance_km_origin: "sql_distance_km 0 0 0 0 = 0"
  by (simp add: sql_distance_km_def radians_def)

lemma nearest_query_one_available:
  "nearest_query [demo_driver\<lparr>driver_status := Available\<rparr>] 0 0 ''standard'' 5
     = Some (0, demo_driver\<lparr>driver_status := Available\<rparr>)"
  by (simp add: nearest_query_def List.map_filter_simps driver_distance_def demo_driver_def
      sql_distance_km_origin)

lemma nearest_query_none_available:
  "nearest_query [demo_driver] 0 0 ''standard'' radius = None"
  by (simp add: nearest_query_def List.map_filter_simps demo_driver_def)

text \<open>
  C4, at the failing input. Ride 5 is dispatched with one driver in range. The driver is
  taken by another handler before the first assignment, is back for the second search and
  is taken again before the second assignment. The ride is then still \<open>searching\<close> and
  has no driver, and no third attempt is made; but the task does not return: the second
  assignment's exception leaves it.
\<close>

theorem search_and_match_retry_raises:
  "search_and_match demo_race 5 0 0 ''standard'' demo_requested_world
     = Some (demo_world\<lparr>drivers := [demo_driver],
                          rides := [demo_requested_ride\<lparr>ride_status := Searching,
                                                        ride_updated_at := 1000\<rparr>],
                          trips := []\<rparr>,
             Inl (Exception ''Driver no longer available''))"
proof -
  let ?a = "demo_driver\<lparr>driver_status := Available\<rparr>"
  let ?r = "demo_requested_ride\<lparr>ride_status := Searching, ride_updated_at := 1000\<rparr>"
  let ?w1 = "demo_world\<lparr>drivers := [?a], rides := [?r], trips := []\<rparr>"
  let ?w2 = "demo_world\<lparr>drivers := [demo_driver], rides := [?r], trips := []\<rparr>"
  have mark: "set_ride_status 5 Searching demo_requested_world = ?w1"
    by (simp add: set_ride_status_def demo_requested_world_def update_where_def
        demo_requested_ride_def demo_ride_def demo_world_def)
  have find1: "find_nearest_driver (drivers ?w1) 0 0 ''standard'' 5 = Some (Some (0, ?a))"
    by (simp add: find_nearest_driver_default nearest_query_one_available)
  have taken: "take_drivers ?w1 = ?w2" "take_drivers (free_drivers ?w2) = ?w2"
    by (simp_all add: take_drivers_def free_drivers_def demo_driver_def)
  have freed: "drivers (free_drivers ?w2) = [?a]"
    by (simp add: free_drivers_def)
  have refused: "assign_driver_to_ride 5 7 ?w2 = (?w2, Inl (Exception ''Driver no longer available''))"
    by (simp add: assign_driver_to_ride_def fetchrow_def demo_driver_def)
  have env: "demo_race 0 = take_drivers" "demo_race (Suc 0) = free_drivers"
    "demo_race 2 = take_drivers"
    by (simp_all add: demo_race_def)
  have id7: "driver_id ?a = 7" by (simp add: demo_driver_def)
  show ?thesis
    unfolding search_and_match_def mark Let_def
    by (simp add: find1 env taken freed refused id7 nearest_query_one_available
        find_nearest_driver_default)
qed

section \<open>Terminal rides and driver status\<close>

text \<open>
  C8, at the failing input. Trip 9 belongs to ride 5, which is \<open>completed\<close>.
  \<open>pause_trip\<close> checks no state: it succeeds and moves the completed ride to \<open>paused\<close>,
  where \<open>start_trip\<close> and \<open>end_trip\<close> refuse the same ride with 409 and change nothing.
\<close>

theorem pause_trip_reopens_completed_ride:
  "ride_status demo_completed_ride = Completed
   \<and> pause_trip 9 demo_completed_world
       = (demo_completed_world
            \<lparr>trips := [demo_trip\<lparr>paused_at := Some 1000\<rparr>],
             rides := [demo_completed_ride\<lparr>ride_status := Paused, ride_updated_at := 1000\<rparr>]\<rparr>,
          Inr (''paused'', 9))
   \<and> start_trip 9 demo_completed_world
       = (demo_completed_world,
          Inl (HTTPException 409 (''Cannot start trip in ride state '' @ apostrophe
                 @ ''completed'' @ apostrophe)))
   \<and> end_trip 9 5 15 demo_completed_world
       = (demo_completed_world,
          Inl (HTTPException 409 (''Cannot end trip in ride state '' @ apostrophe
                 @ ''completed'' @ apostrophe)))"
proof -
  note unfold = fetchrow_def update_where_def invalidate_ride_def redis_delete_def
    demo_completed_world_def demo_completed_ride_def demo_world_def demo_trip_def demo_ride_def
  have p: "pause_trip 9 demo_completed_world
       = (demo_completed_world
            \<lparr>trips := [demo_trip\<lparr>paused_at := Some 1000\<rparr>],
             rides := [demo_completed_ride\<lparr>ride_status := Paused, ride_updated_at := 1000\<rparr>]\<rparr>,
          Inr (''paused'', 9))"
    by (simp add: pause_trip_def unfold)
  have s: "start_trip 9 demo_completed_world
       = (demo_completed_world,
          Inl (HTTPException 409 (''Cannot start trip in ride state '' @ apostrophe
                 @ ''completed'' @ apostrophe)))"
    by (simp add: start_trip_def unfold)
  have e: "end_trip 9 5 15 demo_completed_world
       = (demo_completed_world,
          Inl (HTTPException 409 (''Cannot end trip in ride state '' @ apostrophe
                 @ ''completed'' @ apostrophe)))"
    by (simp add: end_trip_def unfold)
  show ?thesis using p s e by (simp add: demo_completed_ride_def)
qed

text \<open>
  C9, at the failing input. Driver 7 is \<open>on_trip\<close>, carrying ride 5, which is
  \<open>in_progress\<close>. The set-status command looks at the requested status only: it moves the
  driver to \<open>available\<close> (or to \<open>offline\<close>) while the trip goes on, where the assignment
  refuses a driver who is not \<open>available\<close>.
\<close>

theorem update_driver_status_frees_driver_on_trip:
  "driver_status demo_driver = On_trip \<and> ride_status demo_ride = In_progress
   \<and> ride_driver_id demo_ride = Some 7
   \<and> update_driver_status 7 (Some ''available'') demo_world
       = (demo_world\<lparr>drivers := [demo_driver\<lparr>driver_status := Available\<rparr>]\<rparr>,
          Inr (7, ''available''))
   \<and> update_driver_status 7 (Some ''offline'') demo_world
       = (demo_world\<lparr>drivers := [demo_driver\<lparr>driver_status := Offline\<rparr>]\<rparr>,
          Inr (7, ''offline''))
   \<and> assign_driver_to_ride 5 7 demo_world
       = (demo_world, Inl (Exception ''Driver no longer available''))"
proof -
  note unfold = fetchrow_def update_where_def demo_world_def demo_driver_def
  have a: "update_driver_status 7 (Some ''available'') demo_world
       = (demo_world\<lparr>drivers := [demo_driver\<lparr>driver_status := Available\<rparr>]\<rparr>,
          Inr (7, ''available''))"
    by (simp add: update_driver_status_def unfold)
  have b: "update_driver_status 7 (Some ''offline'') demo_world
       = (demo_world\<lparr>drivers := [demo_driver\<lparr>driver_status := Offline\<rparr>]\<rparr>,
          Inr (7, ''offline''))"
    by (simp add: update_driver_status_def unfold)
  have c: "assign_driver_to_ride 5 7 demo_world
       = (demo_world, Inl (Exception ''Driver no longer available''))"
    by (simp add: assign_driver_to_ride_def unfold)
  show ?thesis using a b c by (simp add: demo_ride_def demo_driver_def)
qed

section \<open>The example request, step by step\<close>

lemma haversine_km_origin: "haversine_km 0 0 0 0 = 0"
  by (simp add: haversine_km_def radians_def atan2_def Let_def)

lemma demo_estimate_fare: "estimate_fare ''standard'' 0 0 0 0 1 = 30"
  by (simp add: estimate_fare_def haversine_km_origin Let_def calculate_fare_formula
      spec_base_def py_round_30)

lemma py_round_0: "py_round 0 2 = 0"
  by (simp add: py_round_def round_half_even_def Let_def)

lemma demo_empty_world_fields:
  "rides demo_empty_world = []" "riders demo_empty_world = [demo_rider]"
  "clock demo_empty_world = 1000" "idem_ride demo_empty_world = Map.empty"
  "demand demo_empty_world = Map.empty"
  by (simp_all add: demo_empty_world_def demo_world_def)

lemma demo_get_surge_multiplier:
  "get_surge_multiplier 0 0 demo_empty_world
     = (demo_empty_world\<lparr>demand := [(0, 0) \<mapsto> (1, Some 1300)]\<rparr>, 1)"
  by (simp add: get_surge_multiplier_def py_round_0 redis_incr_def redis_expire_def redis_get_def
      demo_empty_world_fields Let_def)

lemma demo_insert_ride:
  "insert_ride (demo_request key) 1 30 (demo_empty_world\<lparr>demand := dm\<rparr>)
     = Inr (demo_empty_world\<lparr>demand := dm, rides := [demo_created_ride key]\<rparr>,
            demo_created_ride key)"
  by (simp add: insert_ride_def demo_request_def fetchrow_def gen_id_def demo_empty_world_fields
      demo_created_ride_def demo_rider_def Let_def split: option.splits)

section \<open>Idempotent ride creation\<close>

lemma get_surge_multiplier_world:
  "\<exists>dm m. get_surge_multiplier la lo w = (w\<lparr>demand := dm\<rparr>, m)"
  by (auto simp: get_surge_multiplier_def Let_def split: prod.splits)

lemma insert_ride_existing:
  assumes "req_idempotency_key payload = Some k"
    and "fetchrow (\<lambda>r. ride_idempotency_key r = Some k) (rides w) = Some existing"
  shows "insert_ride payload surge est w = Inr (w, existing)"
  using assms by (simp add: insert_ride_def)

lemma insert_ride_new:
  assumes "req_idempotency_key payload = Some k"
    and "fetchrow (\<lambda>r. ride_idempotency_key r = Some k) (rides w) = None"
    and "insert_ride payload surge est w = Inr (w2, row)"
  shows "w2 = w\<lparr>rides := rides w @ [row]\<rparr> \<and> ride_idempotency_key row = Some k"
  using assms by (auto simp: insert_ride_def Let_def split: if_splits)

lemma insert_ride_keeps:
  assumes "insert_ride payload surge est w = Inr (w2, row)"
  shows "clock w2 = clock w \<and> idem_ride w2 = idem_ride w"
  using assms by (auto simp: insert_ride_def Let_def split: option.splits if_splits)

lemma token_rows_none:
  "fetchrow (\<lambda>r. ride_idempotency_key r = Some k) rs = None
     \<Longrightarrow> filter (\<lambda>r. ride_idempotency_key r = Some k) rs = []"
  by (simp add: fetchrow_None filter_empty_conv)

lemma create_ride_hit:
  assumes "req_idempotency_key payload = Some k" and "k \<noteq> []"
    and "redis_get (idem_ride w) (clock w) k = Some cached"
  shows "create_ride payload w = (w, Inr (cached, None))"
  using assms by (simp add: create_ride_def truthy_key_def)

lemma create_ride_miss:
  assumes "req_idempotency_key payload = Some k"
    and "k \<noteq> [] \<longrightarrow> redis_get (idem_ride w) (clock w) k = None"
  shows "\<exists>dm surge est.
     create_ride payload w =
       (case insert_ride payload surge est (w\<lparr>demand := dm\<rparr>) of
          Inl e \<Rightarrow> (w\<lparr>demand := dm\<rparr>, Inl e)
        | Inr (w2, result) \<Rightarrow>
            ((if k = [] then w2
              else w2\<lparr>idem_ride := redis_setex (idem_ride w2) (clock w2) k 86400 result\<rparr>),
             Inr (result, Some (ride_id result, req_pickup_lat payload, req_pickup_lng payload,
                                req_tier payload))))"
proof -
  obtain dm m where s:
    "get_surge_multiplier (req_pickup_lat payload) (req_pickup_lng payload) w
       = (w\<lparr>demand := dm\<rparr>, m)"
    using get_surge_multiplier_world by blast
  show ?thesis
    using assms
    by (intro exI [of _ dm] exI [of _ m]
          exI [of _ "estimate_fare (req_tier payload) (req_pickup_lat payload)
                       (req_pickup_lng payload) (req_dest_lat payload) (req_dest_lng payload) m"])
       (simp add: create_ride_def truthy_key_def s Let_def split: sum.splits prod.splits)
qed

lemma create_ride_token_rows:
  assumes key: "req_idempotency_key payload = Some k"
  shows "(length (filter (\<lambda>r. ride_idempotency_key r = Some k) (rides w)) \<le> 1 \<longrightarrow>
            length (filter (\<lambda>r. ride_idempotency_key r = Some k)
                      (rides (fst (create_ride payload w)))) \<le> 1)
         \<and> (fetchrow (\<lambda>r. ride_idempotency_key r = Some k) (rides w) \<noteq> None \<longrightarrow>
              rides (fst (create_ride payload w)) = rides w)"
proof (cases "k \<noteq> [] \<and> redis_get (idem_ride w) (clock w) k \<noteq> None")
  case True
  then obtain cached where "k \<noteq> []" "redis_get (idem_ride w) (clock w) k = Some cached"
    by blast
  then show ?thesis by (simp add: create_ride_hit [OF key])
next
  case False
  then have miss: "k \<noteq> [] \<longrightarrow> redis_get (idem_ride w) (clock w) k = None" by blast
  obtain dm surge est where c:
    "create_ride payload w =
       (case insert_ride payload surge est (w\<lparr>demand := dm\<rparr>) of
          Inl e \<Rightarrow> (w\<lparr>demand := dm\<rparr>, Inl e)
        | Inr (w2, result) \<Rightarrow>
            ((if k = [] then w2
              else w2\<lparr>idem_ride := redis_setex (idem_ride w2) (clock w2) k 86400 result\<rparr>),
             Inr (result, Some (ride_id result, req_pickup_lat payload, req_pickup_lng payload,
                                req_tier payload))))"
    using create_ride_miss [OF key miss] by blast
  let ?w = "w\<lparr>demand := dm\<rparr>"
  show ?thesis
  proof (cases "insert_ride payload surge est ?w")
    case (Inl e)
    then show ?thesis by (simp add: c)
  next
    case (Inr pair)
    obtain w2 row where pair: "pair = (w2, row)" by (cases pair)
    show ?thesis
    proof (cases "fetchrow (\<lambda>r. ride_idempotency_key r = Some k) (rides w)")
      case None
      then have "fetchrow (\<lambda>r. ride_idempotency_key r = Some k) (rides ?w) = None" by simp
      from insert_ride_new [OF key this Inr [unfolded pair]]
      have "w2 = ?w\<lparr>rides := rides ?w @ [row]\<rparr> \<and> ride_idempotency_key row = Some k"
        by simp
      moreover from None have "filter (\<lambda>r. ride_idempotency_key r = Some k) (rides w) = []"
        by (rule token_rows_none)
      ultimately show ?thesis using None by (cases "k = []") (simp_all add: c Inr pair)
    next
      case (Some existing)
      then have "fetchrow (\<lambda>r. ride_idempotency_key r = Some k) (rides ?w) = Some existing"
        by simp
      from insert_ride_existing [OF key this] Inr pair have "w2 = ?w" by simp
      then show ?thesis by (simp add: c Inr pair)
    qed
  qed
qed

text \<open>
  C5 as stated, at a token the handler does not take for one. The empty
  string is a token for the table (the second insert resolves to the first row) but not
  for the handler's \<open>if payload.idempotency_key\<close>: nothing is stored under it, and the second
  call with the same payload counts demand again and schedules the dispatch again.
\<close>

theorem create_ride_empty_token_repeats:
  "create_ride (demo_request (Some [])) demo_empty_world
     = (demo_empty_world\<lparr>demand := [(0, 0) \<mapsto> (1, Some 1300)],
                          rides := [demo_created_ride (Some [])]\<rparr>,
        Inr (demo_created_ride (Some []), Some (1, 0, 0, ''standard'')))
   \<and> create_ride (demo_request (Some []))
        (demo_empty_world\<lparr>demand := [(0, 0) \<mapsto> (1, Some 1300)],
                           rides := [demo_created_ride (Some [])]\<rparr>)
     = (demo_empty_world\<lparr>demand := [(0, 0) \<mapsto> (2, Some 1300)],
                          rides := [demo_created_ride (Some [])]\<rparr>,
        Inr (demo_created_ride (Some []), Some (1, 0, 0, ''standard'')))"
proof -
  let ?p = "demo_request (Some [])"
  let ?row = "demo_created_ride (Some [])"
  let ?w1 = "demo_empty_world\<lparr>demand := [(0, 0) \<mapsto> (1, Some 1300)], rides := [?row]\<rparr>"
  have req: "req_idempotency_key ?p = Some []" "req_pickup_lat ?p = 0" "req_pickup_lng ?p = 0"
    "req_dest_lat ?p = 0" "req_dest_lng ?p = 0" "req_tier ?p = ''standard''"
    by (simp_all add: demo_request_def)
  have row: "ride_id ?row = 1" "ride_idempotency_key ?row = Some []"
    by (simp_all add: demo_created_ride_def)
  have first: "create_ride ?p demo_empty_world
      = (?w1, Inr (?row, Some (1, 0, 0, ''standard'')))"
    by (simp add: create_ride_def req truthy_key_def demo_get_surge_multiplier
        demo_estimate_fare demo_insert_ride row)
  have surge2: "get_surge_multiplier 0 0 ?w1
      = (demo_empty_world\<lparr>demand := [(0, 0) \<mapsto> (2, Some 1300)], rides := [?row]\<rparr>, 1)"
    by (simp add: get_surge_multiplier_def py_round_0 redis_incr_def redis_expire_def
        redis_get_def demo_empty_world_fields Let_def)
  have insert2: "insert_ride ?p 1 30
        (demo_empty_world\<lparr>demand := [(0, 0) \<mapsto> (2, Some 1300)], rides := [?row]\<rparr>)
      = Inr (demo_empty_world\<lparr>demand := [(0, 0) \<mapsto> (2, Some 1300)], rides := [?row]\<rparr>, ?row)"
    by (simp add: insert_ride_def req fetchrow_def row)
  have second: "create_ride ?p ?w1
      = (demo_empty_world\<lparr>demand := [(0, 0) \<mapsto> (2, Some 1300)], rides := [?row]\<rparr>,
         Inr (?row, Some (1, 0, 0, ''standard'')))"
    by (simp add: create_ride_def req truthy_key_def surge2 demo_estimate_fare insert2 row)
  show ?thesis using first second by simp
qed

text \<open>
  C5, amended. For a create-ride request carrying a token that is not the empty string: a
  first call that finds no live response and succeeds stores its response under the token
  for 86400 seconds, and a later call with the same token and payload, made while that
  entry is in place and before it expires, returns the stored response and neither
  changes the world nor schedules a dispatch; a call that finds a live response returns it
  likewise. For every token, empty or not, at most one ride row carries it: the count of
  such rows stays at most one, and when a row carries the token already the rides table
  is left as it is.
\<close>

theorem create_ride_idempotent:
  assumes "req_idempotency_key payload = Some k"
  shows
    "(k \<noteq> [] \<and> redis_get (idem_ride w) (clock w) k = None
        \<and> create_ride payload w = (w1, Inr (row, task)) \<longrightarrow>
        idem_ride w1 k = Some (row, Some (clock w + 86400))
        \<and> (\<forall>w2. idem_ride w2 k = idem_ride w1 k \<and> clock w2 < clock w + 86400 \<longrightarrow>
               create_ride payload w2 = (w2, Inr (row, None))))
     \<and> (k \<noteq> [] \<and> redis_get (idem_ride w) (clock w) k = Some cached \<longrightarrow>
          create_ride payload w = (w, Inr (cached, None)))
     \<and> (length (filter (\<lambda>r. ride_idempotency_key r = Some k) (rides w)) \<le> 1 \<longrightarrow>
          length (filter (\<lambda>r. ride_idempotency_key r = Some k)
                    (rides (fst (create_ride payload w)))) \<le> 1)
     \<and> (fetchrow (\<lambda>r. ride_idempotency_key r = Some k) (rides w) \<noteq> None \<longrightarrow>
          rides (fst (create_ride payload w)) = rides w)"
proof -
  note key = assms
  have stored: "idem_ride w1 k = Some (row, Some (clock w + 86400))"
    if ne: "k \<noteq> []" and miss: "redis_get (idem_ride w) (clock w) k = None"
      and first: "create_ride payload w = (w1, Inr (row, task))"
  proof -
    from miss have miss': "k \<noteq> [] \<longrightarrow> redis_get (idem_ride w) (clock w) k = None" by simp
    obtain dm surge est where c:
      "create_ride payload w =
         (case insert_ride payload surge est (w\<lparr>demand := dm\<rparr>) of
            Inl e \<Rightarrow> (w\<lparr>demand := dm\<rparr>, Inl e)
          | Inr (w2, result) \<Rightarrow>
              ((if k = [] then w2
                else w2\<lparr>idem_ride := redis_setex (idem_ride w2) (clock w2) k 86400 result\<rparr>),
               Inr (result, Some (ride_id result, req_pickup_lat payload,
                                  req_pickup_lng payload, req_tier payload))))"
      using create_ride_miss [OF key miss'] by blast
    show ?thesis
    proof (cases "insert_ride payload surge est (w\<lparr>demand := dm\<rparr>)")
      case (Inl e)
      with c first show ?thesis by simp
    next
      case (Inr pair)
      obtain w2 result where pair: "pair = (w2, result)" by (cases pair)
      from insert_ride_keeps [OF Inr [unfolded pair]] have "clock w2 = clock w" by simp
      with c first Inr pair ne show ?thesis by (auto simp: redis_setex_def)
    qed
  qed
  have replay: "create_ride payload w2 = (w2, Inr (row, None))"
    if "k \<noteq> []" and "idem_ride w2 k = Some (row, Some (clock w + 86400))"
      and "clock w2 < clock w + 86400"
    for w2
  proof -
    from that have "redis_get (idem_ride w2) (clock w2) k = Some row"
      by (simp add: redis_get_def)
    with \<open>k \<noteq> []\<close> show ?thesis by (intro create_ride_hit [OF key])
  qed
  have hit: "k \<noteq> [] \<and> redis_get (idem_ride w) (clock w) k = Some cached \<longrightarrow>
      create_ride payload w = (w, Inr (cached, None))"
    using create_ride_hit [OF key] by blast
  show ?thesis
    using stored replay hit create_ride_token_rows [OF key, of w] by simp
qed

theorem create_ride_idempotent_witness:
  "req_idempotency_key (demo_request (Some ''tok-2'')) = Some ''tok-2'' \<and> ''tok-2'' \<noteq> []
   \<and> redis_get (idem_ride demo_empty_world) (clock demo_empty_world) ''tok-2'' = None
   \<and> create_ride (demo_request (Some ''tok-2'')) demo_empty_world
       = (demo_empty_world
            \<lparr>demand := [(0, 0) \<mapsto> (1, Some 1300)],
             rides := [demo_created_ride (Some ''tok-2'')],
             idem_ride := [''tok-2'' \<mapsto> (demo_created_ride (Some ''tok-2''), Some 87400)]\<rparr>,
          Inr (demo_created_ride (Some ''tok-2''), Some (1, 0, 0, ''standard'')))
   \<and> create_ride (demo_request (Some ''tok-2''))
        (demo_empty_world
           \<lparr>demand := [(0, 0) \<mapsto> (1, Some 1300)],
            rides := [demo_created_ride (Some ''tok-2'')\<lparr>ride_status := Matched\<rparr>],
            idem_ride := [''tok-2'' \<mapsto> (demo_created_ride (Some ''tok-2''), Some 87400)],
            clock := 80000\<rparr>)
       = (demo_empty_world
            \<lparr>demand := [(0, 0) \<mapsto> (1, Some 1300)],
             rides := [demo_created_ride (Some ''tok-2'')\<lparr>ride_status := Matched\<rparr>],
             idem_ride := [''tok-2'' \<mapsto> (demo_created_ride (Some ''tok-2''), Some 87400)],
             clock := 80000\<rparr>,
          Inr (demo_created_ride (Some ''tok-2''), None))
   \<and> length (filter (\<lambda>r. ride_idempotency_key r = Some ''tok-2'')
               (rides (fst (create_ride (demo_request (Some ''tok-2'')) demo_empty_world)))) \<le> 1"
proof -
  let ?p = "demo_request (Some ''tok-2'')"
  let ?row = "demo_created_ride (Some ''tok-2'')"
  let ?w1 = "demo_empty_world
            \<lparr>demand := [(0, 0) \<mapsto> (1, Some 1300)], rides := [?row],
             idem_ride := [''tok-2'' \<mapsto> (?row, Some 87400)]\<rparr>"
  let ?w2 = "demo_empty_world
            \<lparr>demand := [(0, 0) \<mapsto> (1, Some 1300)],
             rides := [?row\<lparr>ride_status := Matched\<rparr>],
             idem_ride := [''tok-2'' \<mapsto> (?row, Some 87400)], clock := 80000\<rparr>"
  have req: "req_idempotency_key ?p = Some ''tok-2''" "req_pickup_lat ?p = 0"
    "req_pickup_lng ?p = 0" "req_dest_lat ?p = 0" "req_dest_lng ?p = 0"
    "req_tier ?p = ''standard''"
    by (simp_all add: demo_request_def)
  have ne: "''tok-2'' \<noteq> []" by simp
  have miss: "redis_get (idem_ride demo_empty_world) (clock demo_empty_world) ''tok-2'' = None"
    by (simp add: redis_get_def demo_empty_world_fields)
  have id1: "ride_id ?row = 1" by (simp add: demo_created_ride_def)
  have first: "create_ride ?p demo_empty_world = (?w1, Inr (?row, Some (1, 0, 0, ''standard'')))"
    by (simp add: create_ride_def req truthy_key_def redis_get_def demo_empty_world_fields
        demo_get_surge_multiplier demo_estimate_fare demo_insert_ride redis_setex_def id1)
  have same: "idem_ride ?w2 ''tok-2'' = idem_ride ?w1 ''tok-2''
      \<and> clock ?w2 < clock demo_empty_world + 86400"
    by (simp add: demo_empty_world_fields)
  note all = create_ride_idempotent [OF req(1), of demo_empty_world ?w1 ?row
      "Some (1, 0, 0, ''standard'')"]
  from all [THEN conjunct1, THEN mp, OF conjI [OF ne conjI [OF miss first]], THEN conjunct2,
      THEN spec, of ?w2, THEN mp, OF same]
  have second: "create_ride ?p ?w2 = (?w2, Inr (?row, None))" .
  have none: "length (filter (\<lambda>r. ride_idempotency_key r = Some ''tok-2'')
                (rides demo_empty_world)) \<le> 1"
    by (simp add: demo_empty_world_fields)
  from all [THEN conjunct2, THEN conjunct2, THEN conjunct1, THEN mp, OF none]
  have one: "length (filter (\<lambda>r. ride_idempotency_key r = Some ''tok-2'')
               (rides (fst (create_ride ?p demo_empty_world)))) \<le> 1" .
  show ?thesis using req(1) ne miss first second one by simp
qed

section \<open>Creating a payment\<close>

lemma insert_payment_new:
  assumes "\<forall>k. key = Some k \<longrightarrow>
             fetchrow (\<lambda>p. payment_idempotency_key p = Some k) (payments w) = None"
    and "fetchrow (\<lambda>r. ride_id r = rid) (rides w) \<noteq> None"
    and "fetchrow (\<lambda>r. rider_id r = rider) (riders w) \<noteq> None"
  shows "insert_payment rid rider amt meth key w
     = Inr (w\<lparr>payments := payments w @
                  [\<lparr>payment_id = gen_id (map payment_id (payments w)),
                    payment_ride_id = rid, payment_rider_id = rider, amount = amt,
                    pay_method = meth, payment_status = Pending, psp_ref = None,
                    payment_idempotency_key = key, payment_created_at = clock w\<rparr>]\<rparr>,
            \<lparr>payment_id = gen_id (map payment_id (payments w)),
             payment_ride_id = rid, payment_rider_id = rider, amount = amt,
             pay_method = meth, payment_status = Pending, psp_ref = None,
             payment_idempotency_key = key, payment_created_at = clock w\<rparr>)"
  using assms by (cases key) (simp_all add: insert_payment_def Let_def)

lemma py_or_fares:
  assumes "final \<noteq> Some 0"
  shows "py_or final (py_or est 0)
     = (case final of Some f \<Rightarrow> f | None \<Rightarrow> (case est of Some e \<Rightarrow> e | None \<Rightarrow> 0))"
  using assms by (auto simp: py_or_def split: option.splits)

text \<open>
  C10 as stated. With a token whose response is still stored,
  \<open>create_payment\<close> answers from the store before it looks at the ride: for the unknown
  ride 99 it returns the stored payment of ride 5 instead of 404, and creates nothing. And
  for a completed ride whose \<open>final_fare\<close> is present but zero, the amount is the estimated
  fare.
\<close>

theorem create_payment_answers_from_store:
  "fetchrow (\<lambda>r. ride_id r = 99) (rides demo_paid_world) = None
   \<and> create_payment \<lparr>pay_ride_id = 99, pay_idempotency_key = Some ''pay-1''\<rparr> demo_paid_world
       = (demo_paid_world, Inr (demo_payment, None))
   \<and> final_fare demo_free_ride = Some 0 \<and> estimated_fare demo_free_ride = Some 30
   \<and> ride_status demo_free_ride = Completed
   \<and> snd (create_payment \<lparr>pay_ride_id = 5, pay_idempotency_key = None\<rparr>
             (demo_world\<lparr>rides := [demo_free_ride]\<rparr>))
       = Inr (\<lparr>payment_id = 1, payment_ride_id = 5, payment_rider_id = 3, amount = 30,
                pay_method = ''card'', payment_status = Pending, psp_ref = None,
                payment_idempotency_key = None, payment_created_at = 1000\<rparr>,
              Some (1, 5, 30, ''card''))"
proof -
  have a: "fetchrow (\<lambda>r. ride_id r = 99) (rides demo_paid_world) = None"
    by (simp add: fetchrow_def demo_paid_world_def demo_completed_world_def
        demo_completed_ride_def demo_ride_def)
  have b: "create_payment \<lparr>pay_ride_id = 99, pay_idempotency_key = Some ''pay-1''\<rparr>
             demo_paid_world
       = (demo_paid_world, Inr (demo_payment, None))"
    by (simp add: create_payment_def truthy_key_def redis_get_def demo_paid_world_def
        demo_completed_world_def demo_world_def)
  have c: "final_fare demo_free_ride = Some 0 \<and> estimated_fare demo_free_ride = Some 30
       \<and> ride_status demo_free_ride = Completed"
    by (simp add: demo_free_ride_def demo_ride_def)
  have d: "snd (create_payment \<lparr>pay_ride_id = 5, pay_idempotency_key = None\<rparr>
             (demo_world\<lparr>rides := [demo_free_ride]\<rparr>))
       = Inr (\<lparr>payment_id = 1, payment_ride_id = 5, payment_rider_id = 3, amount = 30,
                pay_method = ''card'', payment_status = Pending, psp_ref = None,
                payment_idempotency_key = None, payment_created_at = 1000\<rparr>,
              Some (1, 5, 30, ''card''))"
    by (simp add: create_payment_def truthy_key_def insert_payment_def fetchrow_def py_or_def
        gen_id_def Let_def demo_free_ride_def demo_ride_def demo_world_def demo_rider_def)
  show ?thesis using a b c d by simp
qed

text \<open>
  C10, amended. When no live response is stored under the request's token (or the request
  has none), \<open>create_payment\<close> fails with 404 for an unknown ride and with 409 for a ride
  whose status is not \<open>completed\<close>, the world unchanged; for a \<open>completed\<close> ride whose rider
  exists, and whose token is on no payment row yet, it appends a payment in \<open>pending\<close>
  status under a fresh id whose amount is the ride's \<open>final_fare\<close> if present (a
  \<open>final_fare\<close> of zero apart), else its \<open>estimated_fare\<close>, and answers with that row.
\<close>

theorem create_payment_spec:
  assumes "(case truthy_key (pay_idempotency_key payload) of
              None \<Rightarrow> None
            | Some k \<Rightarrow> redis_get (idem_pay w) (clock w) k) = None"
  shows
    "(fetchrow (\<lambda>r. ride_id r = pay_ride_id payload) (rides w) = None \<longrightarrow>
        create_payment payload w = (w, Inl (HTTPException 404 ''Ride not found'')))
     \<and> (fetchrow (\<lambda>r. ride_id r = pay_ride_id payload) (rides w) = Some ride
          \<and> ride_status ride \<noteq> Completed \<longrightarrow>
          create_payment payload w
            = (w, Inl (HTTPException 409 ''Ride must be completed before payment'')))
     \<and> (fetchrow (\<lambda>r. ride_id r = pay_ride_id payload) (rides w) = Some ride
          \<and> ride_status ride = Completed \<and> final_fare ride \<noteq> Some 0
          \<and> fetchrow (\<lambda>r. rider_id r = ride_rider_id ride) (riders w) \<noteq> None
          \<and> (\<forall>k. pay_idempotency_key payload = Some k \<longrightarrow>
                 fetchrow (\<lambda>p. payment_idempotency_key p = Some k) (payments w) = None) \<longrightarrow>
          (let amt = (case final_fare ride of
                        Some f \<Rightarrow> f
                      | None \<Rightarrow> (case estimated_fare ride of Some e \<Rightarrow> e | None \<Rightarrow> 0));
               row = \<lparr>payment_id = gen_id (map payment_id (payments w)),
                      payment_ride_id = pay_ride_id payload,
                      payment_rider_id = ride_rider_id ride, amount = amt,
                      pay_method = payment_method ride, payment_status = Pending,
                      psp_ref = None,
                      payment_idempotency_key = pay_idempotency_key payload,
                      payment_created_at = clock w\<rparr>
           in snd (create_payment payload w)
                = Inr (row, Some (payment_id row, pay_ride_id payload, amt, payment_method ride))
              \<and> payments (fst (create_payment payload w)) = payments w @ [row]
              \<and> payment_id row \<notin> set (map payment_id (payments w))
              \<and> rides (fst (create_payment payload w)) = rides w))"
proof -
  have unknown: "fetchrow (\<lambda>r. ride_id r = pay_ride_id payload) (rides w) = None \<longrightarrow>
      create_payment payload w = (w, Inl (HTTPException 404 ''Ride not found''))"
    using assms by (simp add: create_payment_def)
  have state: "fetchrow (\<lambda>r. ride_id r = pay_ride_id payload) (rides w) = Some ride
        \<and> ride_status ride \<noteq> Completed \<longrightarrow>
      create_payment payload w
        = (w, Inl (HTTPException 409 ''Ride must be completed before payment''))"
    using assms by (simp add: create_payment_def)
  have fresh: "gen_id (map payment_id (payments w)) \<notin> set (map payment_id (payments w))"
    by (rule gen_id_fresh)
  have pay: "fetchrow (\<lambda>r. ride_id r = pay_ride_id payload) (rides w) = Some ride
        \<and> ride_status ride = Completed \<and> final_fare ride \<noteq> Some 0
        \<and> fetchrow (\<lambda>r. rider_id r = ride_rider_id ride) (riders w) \<noteq> None
        \<and> (\<forall>k. pay_idempotency_key payload = Some k \<longrightarrow>
               fetchrow (\<lambda>p. payment_idempotency_key p = Some k) (payments w) = None) \<longrightarrow>
      (let amt = (case final_fare ride of
                    Some f \<Rightarrow> f
                  | None \<Rightarrow> (case estimated_fare ride of Some e \<Rightarrow> e | None \<Rightarrow> 0));
           row = \<lparr>payment_id = gen_id (map payment_id (payments w)),
                  payment_ride_id = pay_ride_id payload,
                  payment_rider_id = ride_rider_id ride, amount = amt,
                  pay_method = payment_method ride, payment_status = Pending,
                  psp_ref = None,
                  payment_idempotency_key = pay_idempotency_key payload,
                  payment_created_at = clock w\<rparr>
       in snd (create_payment payload w)
            = Inr (row, Some (payment_id row, pay_ride_id payload, amt, payment_method ride))
          \<and> payments (fst (create_payment payload w)) = payments w @ [row]
          \<and> payment_id row \<notin> set (map payment_id (payments w))
          \<and> rides (fst (create_payment payload w)) = rides w)"
  proof (intro impI, elim conjE)
    assume r: "fetchrow (\<lambda>r. ride_id r = pay_ride_id payload) (rides w) = Some ride"
      and c: "ride_status ride = Completed" and z: "final_fare ride \<noteq> Some 0"
      and rider: "fetchrow (\<lambda>r. rider_id r = ride_rider_id ride) (riders w) \<noteq> None"
      and tok: "\<forall>k. pay_idempotency_key payload = Some k \<longrightarrow>
                 fetchrow (\<lambda>p. payment_idempotency_key p = Some k) (payments w) = None"
    from r have rid: "fetchrow (\<lambda>r. ride_id r = pay_ride_id payload) (rides w) \<noteq> None" by simp
    note ins = insert_payment_new [OF tok rid rider]
    show "let amt = (case final_fare ride of
                    Some f \<Rightarrow> f
                  | None \<Rightarrow> (case estimated_fare ride of Some e \<Rightarrow> e | None \<Rightarrow> 0));
           row = \<lparr>payment_id = gen_id (map payment_id (payments w)),
                  payment_ride_id = pay_ride_id payload,
                  payment_rider_id = ride_rider_id ride, amount = amt,
                  pay_method = payment_method ride, payment_status = Pending,
                  psp_ref = None,
                  payment_idempotency_key = pay_idempotency_key payload,
                  payment_created_at = clock w\<rparr>
       in snd (create_payment payload w)
            = Inr (row, Some (payment_id row, pay_ride_id payload, amt, payment_method ride))
          \<and> payments (fst (create_payment payload w)) = payments w @ [row]
          \<and> payment_id row \<notin> set (map payment_id (payments w))
          \<and> rides (fst (create_payment payload w)) = rides w"
      using assms fresh
      by (simp add: create_payment_def r c ins py_or_fares [OF z] Let_def
          split: option.splits)
  qed
  show ?thesis using unknown state pay by blast
qed

theorem create_payment_spec_witness:
  "fetchrow (\<lambda>r. ride_id r = 99) (rides demo_completed_world) = None
   \<and> create_payment \<lparr>pay_ride_id = 99, pay_idempotency_key = Some ''pay-2''\<rparr>
        demo_completed_world
       = (demo_completed_world, Inl (HTTPException 404 ''Ride not found''))
   \<and> fetchrow (\<lambda>r. ride_id r = 5) (rides demo_world) = Some demo_ride
   \<and> ride_status demo_ride \<noteq> Completed
   \<and> create_payment \<lparr>pay_ride_id = 5, pay_idempotency_key = Some ''pay-2''\<rparr> demo_world
       = (demo_world, Inl (HTTPException 409 ''Ride must be completed before payment''))
   \<and> fetchrow (\<lambda>r. ride_id r = 5) (rides demo_completed_world) = Some demo_completed_ride
   \<and> snd (create_payment \<lparr>pay_ride_id = 5, pay_idempotency_key = Some ''pay-2''\<rparr>
             demo_completed_world)
       = Inr (\<lparr>payment_id = 1, payment_ride_id = 5, payment_rider_id = 3, amount = 112.5,
                pay_method = ''card'', payment_status = Pending, psp_ref = None,
                payment_idempotency_key = Some ''pay-2'', payment_created_at = 1000\<rparr>,
              Some (1, 5, 112.5, ''card''))"
proof -
  let ?p = "\<lambda>rid. \<lparr>pay_ride_id = rid, pay_idempotency_key = Some ''pay-2''\<rparr>"
  note worlds = demo_completed_world_def demo_completed_ride_def demo_world_def demo_ride_def
    demo_rider_def
  have miss1: "(case truthy_key (pay_idempotency_key (?p rid)) of
              None \<Rightarrow> None
            | Some k \<Rightarrow> redis_get (idem_pay demo_completed_world) (clock demo_completed_world) k)
        = None" for rid
    by (simp add: truthy_key_def redis_get_def worlds)
  have miss2: "(case truthy_key (pay_idempotency_key (?p rid)) of
              None \<Rightarrow> None
            | Some k \<Rightarrow> redis_get (idem_pay demo_world) (clock demo_world) k) = None" for rid
    by (simp add: truthy_key_def redis_get_def worlds)
  have r99: "fetchrow (\<lambda>r. ride_id r = pay_ride_id (?p 99)) (rides demo_completed_world) = None"
    by (simp add: fetchrow_def worlds)
  have r5: "fetchrow (\<lambda>r. ride_id r = pay_ride_id (?p 5)) (rides demo_world) = Some demo_ride
      \<and> ride_status demo_ride \<noteq> Completed"
    by (simp add: fetchrow_def worlds)
  have r5c: "fetchrow (\<lambda>r. ride_id r = pay_ride_id (?p 5)) (rides demo_completed_world)
        = Some demo_completed_ride
      \<and> ride_status demo_completed_ride = Completed \<and> final_fare demo_completed_ride \<noteq> Some 0
      \<and> fetchrow (\<lambda>r. rider_id r = ride_rider_id demo_completed_ride)
            (riders demo_completed_world) \<noteq> None
      \<and> (\<forall>k. pay_idempotency_key (?p 5) = Some k \<longrightarrow>
             fetchrow (\<lambda>p. payment_idempotency_key p = Some k) (payments demo_completed_world)
               = None)"
    by (simp add: fetchrow_def worlds)
  have a: "create_payment (?p 99) demo_completed_world
       = (demo_completed_world, Inl (HTTPException 404 ''Ride not found''))"
    using create_payment_spec [OF miss1 [of 99], THEN conjunct1, THEN mp, OF r99] .
  have b: "create_payment (?p 5) demo_world
       = (demo_world, Inl (HTTPException 409 ''Ride must be completed before payment''))"
    using create_payment_spec [OF miss2 [of 5], THEN conjunct2, THEN conjunct1, THEN mp, OF r5] .
  note created = create_payment_spec [OF miss1 [of 5], THEN conjunct2, THEN conjunct2, THEN mp,
      OF r5c]
  have c: "snd (create_payment (?p 5) demo_completed_world)
       = Inr (\<lparr>payment_id = 1, payment_ride_id = 5, payment_rider_id = 3, amount = 112.5,
                pay_method = ''card'', payment_status = Pending, psp_ref = None,
                payment_idempotency_key = Some ''pay-2'', payment_created_at = 1000\<rparr>,
              Some (1, 5, 112.5, ''card''))"
    using created by (simp add: Let_def gen_id_def worlds)
  show ?thesis using a b c r99 r5 r5c by simp
qed

end
